theory Spec2Isabelle
  imports Complex_Main
begin

section \<open>High-symmetry k-paths: the data model\<close>

text \<open>
  The development follows \<^verbatim>\<open>pymatgen/symmetry/bandstructure.py\<close>, class
  \<^verbatim>\<open>HighSymmKpath\<close>. Python floats are modelled as \<^typ>\<open>real\<close>: comparisons and
  arithmetic are exact, and a division raises \<^verbatim>\<open>ZeroDivisionError\<close> exactly when its
  divisor is zero. A three-component array is a triple.
\<close>

datatype error = ZeroDivisionError | KeyError | TypeError | AttributeError

type_synonym vec = "real \<times> real \<times> real"

text \<open>
  The dictionary \<^verbatim>\<open>{'kpoints': ..., 'path': ...}\<close> every variant method returns.
\<close>

record kpath =
  kpoints :: "string \<rightharpoonup> vec"
  path :: "string list list"

text \<open>
  The labels \<^verbatim>\<open>'\Gamma'\<close> and \<^verbatim>\<open>'\Sigma'\<close> start with a backslash (character 92),
  which Python keeps since neither is an escape sequence.
\<close>

definition lbl_Gamma :: string where
  "lbl_Gamma = CHR 0x5C # ''Gamma''"

definition lbl_Sigma :: string where
  "lbl_Sigma = CHR 0x5C # ''Sigma''"

definition lbl_Sigma_1 :: string where
  "lbl_Sigma_1 = CHR 0x5C # ''Sigma_1''"

section \<open>The path variants\<close>

text \<open>
  A variant method assigns \<^verbatim>\<open>self._name\<close> and returns the dictionary; the model
  returns the pair of the name and the dictionary, or the error a division raises.
\<close>

type_synonym variant = "error + string \<times> kpath"

definition cubic :: variant where
  "cubic = Inr (''CUB'',
     \<lparr>kpoints = [lbl_Gamma \<mapsto> (0, 0, 0),
                 ''X'' \<mapsto> (0, 0.5, 0),
                 ''R'' \<mapsto> (0.5, 0.5, 0.5),
                 ''M'' \<mapsto> (0.5, 0.5, 0)],
      path = [[lbl_Gamma, ''X'', ''M'', lbl_Gamma, ''R'', ''X''],
              [''M'', ''R'']]\<rparr>)"

definition fcc :: variant where
  "fcc = Inr (''FCC'',
     \<lparr>kpoints = [lbl_Gamma \<mapsto> (0, 0, 0),
                 ''K'' \<mapsto> (3 / 8, 3 / 8, 3 / 4),
                 ''L'' \<mapsto> (0.5, 0.5, 0.5),
                 ''U'' \<mapsto> (5 / 8, 1 / 4, 5 / 8),
                 ''W'' \<mapsto> (0.5, 1 / 4, 3 / 4),
                 ''X'' \<mapsto> (0.5, 0, 0.5)],
      path = [[lbl_Gamma, ''X'', ''W'', ''K'', lbl_Gamma, ''L'', ''U'', ''W'', ''L'', ''K''],
              [''U'', ''X'']]\<rparr>)"

definition bcc :: variant where
  "bcc = Inr (''BCC'',
     \<lparr>kpoints = [lbl_Gamma \<mapsto> (0, 0, 0),
                 ''H'' \<mapsto> (0.5, - 0.5, 0.5),
                 ''P'' \<mapsto> (0.25, 0.25, 0.25),
                 ''N'' \<mapsto> (0, 0, 0.5)],
      path = [[lbl_Gamma, ''H'', ''N'', lbl_Gamma, ''P'', ''H''],
              [''P'', ''N'']]\<rparr>)"

definition tet :: variant where
  "tet = Inr (''TET'',
     \<lparr>kpoints = [lbl_Gamma \<mapsto> (0, 0, 0),
                 ''A'' \<mapsto> (0.5, 0.5, 0.5),
                 ''M'' \<mapsto> (0.5, 0.5, 0),
                 ''R'' \<mapsto> (0, 0.5, 0.5),
                 ''X'' \<mapsto> (0, 0.5, 0),
                 ''Z'' \<mapsto> (0, 0, 0.5)],
      path = [[lbl_Gamma, ''X'', ''M'', lbl_Gamma, ''Z'', ''R'', ''A'', ''Z''],
              [''X'', ''R''],
              [''M'', ''A'']]\<rparr>)"

definition bctet1 :: "real \<Rightarrow> real \<Rightarrow> variant" where
  "bctet1 c a =
    (if a ^ 2 = 0 then Inl ZeroDivisionError
     else let eta = (1 + c ^ 2 / a ^ 2) / 4 in
       Inr (''BCT1'',
         \<lparr>kpoints = [lbl_Gamma \<mapsto> (0, 0, 0),
                     ''M'' \<mapsto> (- 0.5, 0.5, 0.5),
                     ''N'' \<mapsto> (0, 0.5, 0),
                     ''P'' \<mapsto> (0.25, 0.25, 0.25),
                     ''X'' \<mapsto> (0, 0, 0.5),
                     ''Z'' \<mapsto> (eta, eta, - eta),
                     ''Z_1'' \<mapsto> (- eta, 1 - eta, eta)],
          path = [[lbl_Gamma, ''X'', ''M'', lbl_Gamma, ''Z'', ''P'', ''N'', ''Z_1'', ''M''],
                  [''X'', ''P'']]\<rparr>))"

definition bctet2 :: "real \<Rightarrow> real \<Rightarrow> variant" where
  "bctet2 c a =
    (if c ^ 2 = 0 \<or> 2 * c ^ 2 = 0 then Inl ZeroDivisionError
     else let eta = (1 + a ^ 2 / c ^ 2) / 4;
              zeta = a ^ 2 / (2 * c ^ 2) in
       Inr (''BCT2'',
         \<lparr>kpoints = [lbl_Gamma \<mapsto> (0, 0, 0),
                     ''N'' \<mapsto> (0, 0.5, 0),
                     ''P'' \<mapsto> (0.25, 0.25, 0.25),
                     lbl_Sigma \<mapsto> (- eta, eta, eta),
                     lbl_Sigma_1 \<mapsto> (eta, 1 - eta, - eta),
                     ''X'' \<mapsto> (0, 0, 0.5),
                     ''Y'' \<mapsto> (- zeta, zeta, 0.5),
                     ''Y_1'' \<mapsto> (0.5, 0.5, - zeta),
                     ''Z'' \<mapsto> (0.5, 0.5, - 0.5)],
          path = [[lbl_Gamma, ''X'', ''Y'', lbl_Sigma, lbl_Gamma, ''Z'',
                   lbl_Sigma_1, ''N'', ''P'', ''Y_1'', ''Z''],
                  [''X'', ''P'']]\<rparr>))"

definition orc :: variant where
  "orc = Inr (''ORC'',
     \<lparr>kpoints = [lbl_Gamma \<mapsto> (0, 0, 0),
                 ''R'' \<mapsto> (0.5, 0.5, 0.5),
                 ''S'' \<mapsto> (0.5, 0.5, 0),
                 ''T'' \<mapsto> (0, 0.5, 0.5),
                 ''U'' \<mapsto> (0.5, 0, 0.5),
                 ''X'' \<mapsto> (0.5, 0, 0),
                 ''Y'' \<mapsto> (0, 0.5, 0),
                 ''Z'' \<mapsto> (0, 0, 0.5)],
      path = [[lbl_Gamma, ''X'', ''S'', ''Y'', lbl_Gamma, ''Z'', ''U'', ''R'', ''T'', ''Z''],
              [''Y'', ''T''],
              [''U'', ''X''],
              [''S'', ''R'']]\<rparr>)"

definition orcf1 :: "real \<Rightarrow> real \<Rightarrow> real \<Rightarrow> variant" where
  "orcf1 a b c =
    (if b ^ 2 = 0 \<or> c ^ 2 = 0 then Inl ZeroDivisionError
     else let zeta = (1 + a ^ 2 / b ^ 2 - a ^ 2 / c ^ 2) / 4;
              eta = (1 + a ^ 2 / b ^ 2 + a ^ 2 / c ^ 2) / 4 in
       Inr (''ORCF1'',
         \<lparr>kpoints = [lbl_Gamma \<mapsto> (0, 0, 0),
                     ''A'' \<mapsto> (0.5, 0.5 + zeta, zeta),
                     ''A_1'' \<mapsto> (0.5, 0.5 - zeta, 1 - zeta),
                     ''L'' \<mapsto> (0.5, 0.5, 0.5),
                     ''T'' \<mapsto> (1, 0.5, 0.5),
                     ''X'' \<mapsto> (0, eta, eta),
                     ''X_1'' \<mapsto> (1, 1 - eta, 1 - eta),
                     ''Y'' \<mapsto> (0.5, 0, 0.5),
                     ''Z'' \<mapsto> (0.5, 0.5, 0)],
          path = [[lbl_Gamma, ''Y'', ''T'', ''Z'', lbl_Gamma, ''X'', ''A_1'', ''Y''],
                  [''T'', ''X_1''],
                  [''X'', ''A'', ''Z''],
                  [''L'', lbl_Gamma]]\<rparr>))"

definition orcf2 :: "real \<Rightarrow> real \<Rightarrow> real \<Rightarrow> variant" where
  "orcf2 a b c =
    (if b ^ 2 = 0 \<or> a ^ 2 = 0 \<or> c ^ 2 = 0 then Inl ZeroDivisionError
     else let phi = (1 + c ^ 2 / b ^ 2 - c ^ 2 / a ^ 2) / 4;
              eta = (1 + a ^ 2 / b ^ 2 - a ^ 2 / c ^ 2) / 4;
              delta = (1 + b ^ 2 / a ^ 2 - b ^ 2 / c ^ 2) / 4 in
       Inr (''ORCF2'',
         \<lparr>kpoints = [lbl_Gamma \<mapsto> (0, 0, 0),
                     ''C'' \<mapsto> (0.5, 0.5 - eta, 1 - eta),
                     ''C_1'' \<mapsto> (0.5, 0.5 + eta, eta),
                     ''D'' \<mapsto> (0.5 - delta, 0.5, 1 - delta),
                     ''D_1'' \<mapsto> (0.5 + delta, 0.5, delta),
                     ''L'' \<mapsto> (0.5, 0.5, 0.5),
                     ''H'' \<mapsto> (1 - phi, 0.5 - phi, 0.5),
                     ''H_1'' \<mapsto> (phi, 0.5 + phi, 0.5),
                     ''X'' \<mapsto> (0, 0.5, 0.5),
                     ''Y'' \<mapsto> (0.5, 0, 0.5),
                     ''Z'' \<mapsto> (0.5, 0.5, 0)],
          path = [[lbl_Gamma, ''Y'', ''C'', ''D'', ''X'', lbl_Gamma, ''Z'', ''D_1'', ''H'', ''C''],
                  [''C_1'', ''Z''],
                  [''X'', ''H_1''],
                  [''H'', ''Y''],
                  [''L'', lbl_Gamma]]\<rparr>))"

definition orcf3 :: "real \<Rightarrow> real \<Rightarrow> real \<Rightarrow> variant" where
  "orcf3 a b c =
    (if b ^ 2 = 0 \<or> c ^ 2 = 0 then Inl ZeroDivisionError
     else let zeta = (1 + a ^ 2 / b ^ 2 - a ^ 2 / c ^ 2) / 4;
              eta = (1 + a ^ 2 / b ^ 2 + a ^ 2 / c ^ 2) / 4 in
       Inr (''ORCF3'',
         \<lparr>kpoints = [lbl_Gamma \<mapsto> (0, 0, 0),
                     ''A'' \<mapsto> (0.5, 0.5 + zeta, zeta),
                     ''A_1'' \<mapsto> (0.5, 0.5 - zeta, 1 - zeta),
                     ''L'' \<mapsto> (0.5, 0.5, 0.5),
                     ''T'' \<mapsto> (1, 0.5, 0.5),
                     ''X'' \<mapsto> (0, eta, eta),
                     ''X_1'' \<mapsto> (1, 1 - eta, 1 - eta),
                     ''Y'' \<mapsto> (0.5, 0, 0.5),
                     ''Z'' \<mapsto> (0.5, 0.5, 0)],
          path = [[lbl_Gamma, ''Y'', ''T'', ''Z'', lbl_Gamma, ''X'', ''A_1'', ''Y''],
                  [''X'', ''A'', ''Z''],
                  [''L'', lbl_Gamma]]\<rparr>))"

definition orci :: "real \<Rightarrow> real \<Rightarrow> real \<Rightarrow> variant" where
  "orci a b c =
    (if c ^ 2 = 0 \<or> 4 * c ^ 2 = 0 then Inl ZeroDivisionError
     else let zeta = (1 + a ^ 2 / c ^ 2) / 4;
              eta = (1 + b ^ 2 / c ^ 2) / 4;
              delta = (b ^ 2 - a ^ 2) / (4 * c ^ 2);
              mu = (a ^ 2 + b ^ 2) / (4 * c ^ 2) in
       Inr (''ORCI'',
         \<lparr>kpoints = [lbl_Gamma \<mapsto> (0, 0, 0),
                     ''L'' \<mapsto> (- mu, mu, 0.5 - delta),
                     ''L_1'' \<mapsto> (mu, - mu, 0.5 + delta),
                     ''L_2'' \<mapsto> (0.5 - delta, 0.5 + delta, - mu),
                     ''R'' \<mapsto> (0, 0.5, 0),
                     ''S'' \<mapsto> (0.5, 0, 0),
                     ''T'' \<mapsto> (0, 0, 0.5),
                     ''W'' \<mapsto> (0.25, 0.25, 0.25),
                     ''X'' \<mapsto> (- zeta, zeta, zeta),
                     ''X_1'' \<mapsto> (zeta, 1 - zeta, - zeta),
                     ''Y'' \<mapsto> (eta, - eta, eta),
                     ''Y_1'' \<mapsto> (1 - eta, eta, - eta),
                     ''Z'' \<mapsto> (0.5, 0.5, - 0.5)],
          path = [[lbl_Gamma, ''X'', ''L'', ''T'', ''W'', ''R'', ''X_1'', ''Z'',
                   lbl_Gamma, ''Y'', ''S'', ''W''],
                  [''L_1'', ''Y''],
                  [''Y_1'', ''Z'']]\<rparr>))"

definition orcc :: "real \<Rightarrow> real \<Rightarrow> real \<Rightarrow> variant" where
  "orcc a b c =
    (if b ^ 2 = 0 then Inl ZeroDivisionError
     else let zeta = (1 + a ^ 2 / b ^ 2) / 4 in
       Inr (''ORCC'',
         \<lparr>kpoints = [lbl_Gamma \<mapsto> (0, 0, 0),
                     ''A'' \<mapsto> (zeta, zeta, 0.5),
                     ''A_1'' \<mapsto> (- zeta, 1 - zeta, 0.5),
                     ''R'' \<mapsto> (0, 0.5, 0.5),
                     ''S'' \<mapsto> (0, 0.5, 0),
                     ''T'' \<mapsto> (- 0.5, 0.5, 0.5),
                     ''X'' \<mapsto> (zeta, zeta, 0),
                     ''X_1'' \<mapsto> (- zeta, 1 - zeta, 0),
                     ''Y'' \<mapsto> (- 0.5, 0.5, 0),
                     ''Z'' \<mapsto> (0, 0, 0.5)],
          path = [[lbl_Gamma, ''X'', ''S'', ''R'', ''A'', ''Z'',
                   lbl_Gamma, ''Y'', ''X_1'', ''A_1'', ''T'', ''Y''],
                  [''Z'', ''T'']]\<rparr>))"

definition hex :: variant where
  "hex = Inr (''HEX'',
     \<lparr>kpoints = [lbl_Gamma \<mapsto> (0, 0, 0),
                 ''A'' \<mapsto> (0, 0, 0.5),
                 ''H'' \<mapsto> (1 / 3, 1 / 3, 0.5),
                 ''K'' \<mapsto> (1 / 3, 1 / 3, 0),
                 ''L'' \<mapsto> (0.5, 0, 0.5),
                 ''M'' \<mapsto> (0.5, 0, 0)],
      path = [[lbl_Gamma, ''M'', ''K'', lbl_Gamma, ''A'', ''L'', ''H'', ''A''],
              [''L'', ''M''],
              [''K'', ''H'']]\<rparr>)"

text \<open>
  The angle arguments of the following variants are radians.
  \<^verbatim>\<open>math.tan\<close> is modelled by \<^const>\<open>tan\<close>, which is \<open>sin x / cos x\<close> and so is
  \<open>0\<close> where the cosine vanishes; these arguments are outside \<open>0 < alpha < pi\<close>.
\<close>

definition rhl1 :: "real \<Rightarrow> variant" where
  "rhl1 alpha =
    (if 2 + 4 * cos alpha = 0 then Inl ZeroDivisionError
     else let eta = (1 + 4 * cos alpha) / (2 + 4 * cos alpha);
              nu = 3 / 4 - eta / 2 in
       Inr (''RHL1'',
         \<lparr>kpoints = [lbl_Gamma \<mapsto> (0, 0, 0),
                     ''B'' \<mapsto> (eta, 0.5, 1 - eta),
                     ''B_1'' \<mapsto> (1 / 2, 1 - eta, eta - 1),
                     ''F'' \<mapsto> (0.5, 0.5, 0),
                     ''L'' \<mapsto> (0.5, 0, 0),
                     ''L_1'' \<mapsto> (0, 0, - 0.5),
                     ''P'' \<mapsto> (eta, nu, nu),
                     ''P_1'' \<mapsto> (1 - nu, 1 - nu, 1 - eta),
                     ''P_2'' \<mapsto> (nu, nu, eta - 1),
                     ''Q'' \<mapsto> (1 - nu, nu, 0),
                     ''X'' \<mapsto> (nu, 0, - nu),
                     ''Z'' \<mapsto> (0.5, 0.5, 0.5)],
          path = [[lbl_Gamma, ''L'', ''B_1''],
                  [''B'', ''Z'', lbl_Gamma, ''X''],
                  [''Q'', ''F'', ''P_1'', ''Z''],
                  [''L'', ''P'']]\<rparr>))"

definition rhl2 :: "real \<Rightarrow> variant" where
  "rhl2 alpha =
    (if 2 * tan (alpha / 2) ^ 2 = 0 then Inl ZeroDivisionError
     else let eta = 1 / (2 * tan (alpha / 2) ^ 2);
              nu = 3 / 4 - eta / 2 in
       Inr (''RHL2'',
         \<lparr>kpoints = [lbl_Gamma \<mapsto> (0, 0, 0),
                     ''F'' \<mapsto> (0.5, - 0.5, 0),
                     ''L'' \<mapsto> (0.5, 0, 0),
                     ''P'' \<mapsto> (1 - nu, - nu, 1 - nu),
                     ''P_1'' \<mapsto> (nu, nu - 1, nu - 1),
                     ''Q'' \<mapsto> (eta, eta, eta),
                     ''Q_1'' \<mapsto> (1 - eta, - eta, - eta),
                     ''Z'' \<mapsto> (0.5, - 0.5, 0.5)],
          path = [[lbl_Gamma, ''P'', ''Z'', ''Q'', lbl_Gamma,
                   ''F'', ''P_1'', ''Q_1'', ''L'', ''Z'']]\<rparr>))"

text \<open>
  The two parameters of \<^verbatim>\<open>mcl\<close>, named as in the source.
\<close>

definition mcl_eta :: "real \<Rightarrow> real \<Rightarrow> real \<Rightarrow> real" where
  "mcl_eta b c alpha = (1 - b * cos alpha / c) / (2 * sin alpha ^ 2)"

definition mcl_nu :: "real \<Rightarrow> real \<Rightarrow> real \<Rightarrow> real" where
  "mcl_nu b c alpha = 0.5 - mcl_eta b c alpha * c * cos alpha / b"

definition mcl :: "real \<Rightarrow> real \<Rightarrow> real \<Rightarrow> variant" where
  "mcl b c alpha =
    (if c = 0 \<or> 2 * sin alpha ^ 2 = 0 \<or> b = 0 then Inl ZeroDivisionError
     else let eta = mcl_eta b c alpha;
              nu = mcl_nu b c alpha in
       Inr (''MCL'',
         \<lparr>kpoints = [lbl_Gamma \<mapsto> (0, 0, 0),
                     ''A'' \<mapsto> (0.5, 0.5, 0),
                     ''C'' \<mapsto> (0, 0.5, 0.5),
                     ''D'' \<mapsto> (0.5, 0, 0.5),
                     ''D_1'' \<mapsto> (0.5, 0.5, - 0.5),
                     ''E'' \<mapsto> (0.5, 0.5, 0.5),
                     ''H'' \<mapsto> (0, eta, 1 - nu),
                     ''H_1'' \<mapsto> (0, 1 - eta, nu),
                     ''H_2'' \<mapsto> (0, eta, - nu),
                     ''M'' \<mapsto> (0.5, eta, 1 - nu),
                     ''M_1'' \<mapsto> (0.5, 1 - eta, nu),
                     ''M_2'' \<mapsto> (0.5, 1 - eta, nu),
                     ''X'' \<mapsto> (0, 0.5, 0),
                     ''Y'' \<mapsto> (0, 0, 0.5),
                     ''Y_1'' \<mapsto> (0, 0, - 0.5),
                     ''Z'' \<mapsto> (0.5, 0, 0)],
          path = [[lbl_Gamma, ''Y'', ''H'', ''C'', ''E'', ''M_1'', ''A'', ''X'', ''H_1''],
                  [''M'', ''D'', ''Z''],
                  [''Y'', ''D'']]\<rparr>))"

definition mclc1 :: "real \<Rightarrow> real \<Rightarrow> real \<Rightarrow> real \<Rightarrow> variant" where
  "mclc1 a b c alpha =
    (if c = 0 \<or> 4 * sin alpha ^ 2 = 0 \<or> b = 0 \<or> 4 * b ^ 2 * sin alpha ^ 2 = 0
     then Inl ZeroDivisionError
     else let zeta = (2 - b * cos alpha / c) / (4 * sin alpha ^ 2);
              eta = 0.5 + 2 * zeta * c * cos alpha / b;
              psi = 0.75 - a ^ 2 / (4 * b ^ 2 * sin alpha ^ 2);
              phi = psi + (0.75 - psi) * b * cos alpha / c in
       Inr (''MCLC1'',
         \<lparr>kpoints = [lbl_Gamma \<mapsto> (0, 0, 0),
                     ''N'' \<mapsto> (0.5, 0, 0),
                     ''N_1'' \<mapsto> (0, - 0.5, 0),
                     ''F'' \<mapsto> (1 - zeta, 1 - zeta, 1 - eta),
                     ''F_1'' \<mapsto> (zeta, zeta, eta),
                     ''F_2'' \<mapsto> (- zeta, - zeta, 1 - eta),
                     ''I'' \<mapsto> (phi, 1 - phi, 0.5),
                     ''I_1'' \<mapsto> (1 - phi, phi - 1, 0.5),
                     ''L'' \<mapsto> (0.5, 0.5, 0.5),
                     ''M'' \<mapsto> (0.5, 0, 0.5),
                     ''X'' \<mapsto> (1 - psi, psi - 1, 0),
                     ''X_1'' \<mapsto> (psi, 1 - psi, 0),
                     ''X_2'' \<mapsto> (psi - 1, - psi, 0),
                     ''Y'' \<mapsto> (0.5, 0.5, 0),
                     ''Y_1'' \<mapsto> (- 0.5, - 0.5, 0),
                     ''Z'' \<mapsto> (0, 0, 0.5)],
          path = [[lbl_Gamma, ''Y'', ''F'', ''L'', ''I''],
                  [''I_1'', ''Z'', ''F_1''],
                  [''Y'', ''X_1''],
                  [''X'', lbl_Gamma, ''N''],
                  [''M'', lbl_Gamma]]\<rparr>))"

definition mclc2 :: "real \<Rightarrow> real \<Rightarrow> real \<Rightarrow> real \<Rightarrow> variant" where
  "mclc2 a b c alpha =
    (if c = 0 \<or> 4 * sin alpha ^ 2 = 0 \<or> b = 0 \<or> 4 * b ^ 2 * sin alpha ^ 2 = 0
     then Inl ZeroDivisionError
     else let zeta = (2 - b * cos alpha / c) / (4 * sin alpha ^ 2);
              eta = 0.5 + 2 * zeta * c * cos alpha / b;
              psi = 0.75 - a ^ 2 / (4 * b ^ 2 * sin alpha ^ 2);
              phi = psi + (0.75 - psi) * b * cos alpha / c in
       Inr (''MCLC2'',
         \<lparr>kpoints = [lbl_Gamma \<mapsto> (0, 0, 0),
                     ''N'' \<mapsto> (0.5, 0, 0),
                     ''N_1'' \<mapsto> (0, - 0.5, 0),
                     ''F'' \<mapsto> (1 - zeta, 1 - zeta, 1 - eta),
                     ''F_1'' \<mapsto> (zeta, zeta, eta),
                     ''F_2'' \<mapsto> (- zeta, - zeta, 1 - eta),
                     ''F_3'' \<mapsto> (1 - zeta, - zeta, 1 - eta),
                     ''I'' \<mapsto> (phi, 1 - phi, 0.5),
                     ''I_1'' \<mapsto> (1 - phi, phi - 1, 0.5),
                     ''L'' \<mapsto> (0.5, 0.5, 0.5),
                     ''M'' \<mapsto> (0.5, 0, 0.5),
                     ''X'' \<mapsto> (1 - psi, psi - 1, 0),
                     ''X_1'' \<mapsto> (psi, 1 - psi, 0),
                     ''X_2'' \<mapsto> (psi - 1, - psi, 0),
                     ''Y'' \<mapsto> (0.5, 0.5, 0),
                     ''Y_1'' \<mapsto> (- 0.5, - 0.5, 0),
                     ''Z'' \<mapsto> (0, 0, 0.5)],
          path = [[lbl_Gamma, ''Y'', ''F'', ''L'', ''I''],
                  [''I_1'', ''Z'', ''F_1''],
                  [''N'', lbl_Gamma, ''M'']]\<rparr>))"

definition mclc3 :: "real \<Rightarrow> real \<Rightarrow> real \<Rightarrow> real \<Rightarrow> variant" where
  "mclc3 a b c alpha =
    (if a ^ 2 = 0 \<or> 2 * a ^ 2 = 0 \<or> c = 0 \<or> 4 * sin alpha ^ 2 = 0 \<or> b = 0
     then Inl ZeroDivisionError
     else let mu = (1 + b ^ 2 / a ^ 2) / 4;
              delta = b * c * cos alpha / (2 * a ^ 2);
              zeta = mu - 0.25 + (1 - b * cos alpha / c) / (4 * sin alpha ^ 2);
              eta = 0.5 + 2 * zeta * c * cos alpha / b;
              phi = 1 + zeta - 2 * mu;
              psi = eta - 2 * delta in
       Inr (''MCLC3'',
         \<lparr>kpoints = [lbl_Gamma \<mapsto> (0, 0, 0),
                     ''F'' \<mapsto> (1 - phi, 1 - phi, 1 - psi),
                     ''F_1'' \<mapsto> (phi, phi - 1, psi),
                     ''F_2'' \<mapsto> (1 - phi, - phi, 1 - psi),
                     ''H'' \<mapsto> (zeta, zeta, eta),
                     ''H_1'' \<mapsto> (1 - zeta, - zeta, 1 - eta),
                     ''H_2'' \<mapsto> (- zeta, - zeta, 1 - eta),
                     ''I'' \<mapsto> (0.5, - 0.5, 0.5),
                     ''M'' \<mapsto> (0.5, 0, 0.5),
                     ''N'' \<mapsto> (0.5, 0, 0),
                     ''N_1'' \<mapsto> (0, - 0.5, 0),
                     ''X'' \<mapsto> (0.5, - 0.5, 0),
                     ''Y'' \<mapsto> (mu, mu, delta),
                     ''Y_1'' \<mapsto> (1 - mu, - mu, - delta),
                     ''Y_2'' \<mapsto> (- mu, - mu, - delta),
                     ''Y_3'' \<mapsto> (mu, mu - 1, delta),
                     ''Z'' \<mapsto> (0, 0, 0.5)],
          path = [[lbl_Gamma, ''Y'', ''F'', ''H'', ''Z'', ''I'', ''F_1''],
                  [''H_1'', ''Y_1'', ''X'', lbl_Gamma, ''N''],
                  [''M'', lbl_Gamma]]\<rparr>))"

definition mclc4 :: "real \<Rightarrow> real \<Rightarrow> real \<Rightarrow> real \<Rightarrow> variant" where
  "mclc4 a b c alpha =
    (if a ^ 2 = 0 \<or> 2 * a ^ 2 = 0 \<or> c = 0 \<or> 4 * sin alpha ^ 2 = 0 \<or> b = 0
     then Inl ZeroDivisionError
     else let mu = (1 + b ^ 2 / a ^ 2) / 4;
              delta = b * c * cos alpha / (2 * a ^ 2);
              zeta = mu - 0.25 + (1 - b * cos alpha / c) / (4 * sin alpha ^ 2);
              eta = 0.5 + 2 * zeta * c * cos alpha / b;
              phi = 1 + zeta - 2 * mu;
              psi = eta - 2 * delta in
       Inr (''MCLC4'',
         \<lparr>kpoints = [lbl_Gamma \<mapsto> (0, 0, 0),
                     ''F'' \<mapsto> (1 - phi, 1 - phi, 1 - psi),
                     ''F_1'' \<mapsto> (phi, phi - 1, psi),
                     ''F_2'' \<mapsto> (1 - phi, - phi, 1 - psi),
                     ''H'' \<mapsto> (zeta, zeta, eta),
                     ''H_1'' \<mapsto> (1 - zeta, - zeta, 1 - eta),
                     ''H_2'' \<mapsto> (- zeta, - zeta, 1 - eta),
                     ''I'' \<mapsto> (0.5, - 0.5, 0.5),
                     ''M'' \<mapsto> (0.5, 0, 0.5),
                     ''N'' \<mapsto> (0.5, 0, 0),
                     ''N_1'' \<mapsto> (0, - 0.5, 0),
                     ''X'' \<mapsto> (0.5, - 0.5, 0),
                     ''Y'' \<mapsto> (mu, mu, delta),
                     ''Y_1'' \<mapsto> (1 - mu, - mu, - delta),
                     ''Y_2'' \<mapsto> (- mu, - mu, - delta),
                     ''Y_3'' \<mapsto> (mu, mu - 1, delta),
                     ''Z'' \<mapsto> (0, 0, 0.5)],
          path = [[lbl_Gamma, ''Y'', ''F'', ''H'', ''Z'', ''I''],
                  [''H_1'', ''Y_1'', ''X'', lbl_Gamma, ''N''],
                  [''M'', lbl_Gamma]]\<rparr>))"

definition mclc5 :: "real \<Rightarrow> real \<Rightarrow> real \<Rightarrow> real \<Rightarrow> variant" where
  "mclc5 a b c alpha =
    (if a ^ 2 = 0 \<or> c = 0 \<or> sin alpha ^ 2 = 0 \<or> b = 0 \<or> 4 * a ^ 2 = 0 \<or> 2 * a ^ 2 = 0
        \<or> b ^ 2 = 0 \<or> 2 * b * cos alpha = 0
     then Inl ZeroDivisionError
     else let zeta = (b ^ 2 / a ^ 2 + (1 - b * cos alpha / c) / sin alpha ^ 2) / 4;
              eta = 0.5 + 2 * zeta * c * cos alpha / b;
              mu = eta / 2 + b ^ 2 / (4 * a ^ 2) - b * c * cos alpha / (2 * a ^ 2);
              nu = 2 * mu - zeta;
              rho = 1 - zeta * a ^ 2 / b ^ 2;
              omega = (4 * nu - 1 - b ^ 2 * sin alpha ^ 2 / a ^ 2) * c / (2 * b * cos alpha);
              delta = zeta * c * cos alpha / b + omega / 2 - 0.25 in
       Inr (''MCLC5'',
         \<lparr>kpoints = [lbl_Gamma \<mapsto> (0, 0, 0),
                     ''F'' \<mapsto> (nu, nu, omega),
                     ''F_1'' \<mapsto> (1 - nu, 1 - nu, 1 - omega),
                     ''F_2'' \<mapsto> (nu, nu - 1, omega),
                     ''H'' \<mapsto> (zeta, zeta, eta),
                     ''H_1'' \<mapsto> (1 - zeta, - zeta, 1 - eta),
                     ''H_2'' \<mapsto> (- zeta, - zeta, 1 - eta),
                     ''I'' \<mapsto> (rho, 1 - rho, 0.5),
                     ''I_1'' \<mapsto> (1 - rho, rho - 1, 0.5),
                     ''L'' \<mapsto> (0.5, 0.5, 0.5),
                     ''M'' \<mapsto> (0.5, 0, 0.5),
                     ''N'' \<mapsto> (0.5, 0, 0),
                     ''N_1'' \<mapsto> (0, - 0.5, 0),
                     ''X'' \<mapsto> (0.5, - 0.5, 0),
                     ''Y'' \<mapsto> (mu, mu, delta),
                     ''Y_1'' \<mapsto> (1 - mu, - mu, - delta),
                     ''Y_2'' \<mapsto> (- mu, - mu, - delta),
                     ''Y_3'' \<mapsto> (mu, mu - 1, delta),
                     ''Z'' \<mapsto> (0, 0, 0.5)],
          path = [[lbl_Gamma, ''Y'', ''F'', ''L'', ''I''],
                  [''I_1'', ''Z'', ''H'', ''F_1''],
                  [''H_1'', ''Y_1'', ''X'', lbl_Gamma, ''N''],
                  [''M'', lbl_Gamma]]\<rparr>))"

definition tria :: variant where
  "tria = Inr (''TRI1a'',
     \<lparr>kpoints = [lbl_Gamma \<mapsto> (0, 0, 0),
                 ''L'' \<mapsto> (0.5, 0.5, 0),
                 ''M'' \<mapsto> (0, 0.5, 0.5),
                 ''N'' \<mapsto> (0.5, 0, 0.5),
                 ''R'' \<mapsto> (0.5, 0.5, 0.5),
                 ''X'' \<mapsto> (0.5, 0, 0),
                 ''Y'' \<mapsto> (0, 0.5, 0),
                 ''Z'' \<mapsto> (0, 0, 0.5)],
      path = [[''X'', lbl_Gamma, ''Y''],
              [''L'', lbl_Gamma, ''Z''],
              [''N'', lbl_Gamma, ''M''],
              [''R'', lbl_Gamma]]\<rparr>)"

definition trib :: variant where
  "trib = Inr (''TRI1b'',
     \<lparr>kpoints = [lbl_Gamma \<mapsto> (0, 0, 0),
                 ''L'' \<mapsto> (0.5, - 0.5, 0),
                 ''M'' \<mapsto> (0, 0, 0.5),
                 ''N'' \<mapsto> (- 0.5, - 0.5, 0.5),
                 ''R'' \<mapsto> (0, - 0.5, 0.5),
                 ''X'' \<mapsto> (0, - 0.5, 0),
                 ''Y'' \<mapsto> (0.5, 0, 0),
                 ''Z'' \<mapsto> (- 0.5, 0, 0.5)],
      path = [[''X'', lbl_Gamma, ''Y''],
              [''L'', lbl_Gamma, ''Z''],
              [''N'', lbl_Gamma, ''M''],
              [''R'', lbl_Gamma]]\<rparr>)"

section \<open>The classifier: \<^verbatim>\<open>HighSymmKpath.__init__\<close>\<close>

text \<open>
  What the constructor reads from its collaborators: the lattice type and the space group
  symbol of the symmetry finder, the lengths and the first angle of the conventional cell,
  the first angle of the primitive cell and the three angles of the reciprocal lattice of
  the primitive cell. Angles are in degrees.
\<close>

record finder =
  lattice_type :: string
  spacegroup_symbol :: string
  conv_a :: real
  conv_b :: real
  conv_c :: real
  conv_alpha :: real
  prim_alpha :: real
  kalpha :: real
  kbeta :: real
  kgamma :: real

text \<open>
  The two attributes the constructor and the variant methods write. \<^verbatim>\<open>_kpath\<close> starts
  as \<^verbatim>\<open>None\<close>; \<^verbatim>\<open>_name\<close> does not exist until a variant method has run.
\<close>

record hsk =
  name_attr :: "string option"
  kpath_attr :: "kpath option"

definition assign :: "variant \<Rightarrow> hsk \<Rightarrow> error + hsk" where
  "assign v self =
    (case v of
       Inl e \<Rightarrow> Inl e
     | Inr (n, kp) \<Rightarrow> Inr (self\<lparr>name_attr := Some n, kpath_attr := Some kp\<rparr>))"

definition guarded :: "bool \<Rightarrow> (hsk \<Rightarrow> error + hsk) \<Rightarrow> hsk \<Rightarrow> error + hsk" where
  "guarded cond m self = (if cond then m self else Inr self)"

text \<open>Statements in sequence: the first exception ends the run.\<close>

fun run :: "(hsk \<Rightarrow> error + hsk) list \<Rightarrow> hsk \<Rightarrow> error + hsk" where
  "run [] self = Inr self"
| "run (m # ms) self = (case m self of Inl e \<Rightarrow> Inl e | Inr self' \<Rightarrow> run ms self')"

text \<open>
  The quantity the monoclinic C branch compares with 1, as the source writes it: the
  cosine is taken of \<^verbatim>\<open>alpha * pi / 180\<close>, the sine of \<^verbatim>\<open>alpha\<close> itself.
\<close>

definition mclc_ratio :: "real \<Rightarrow> real \<Rightarrow> real \<Rightarrow> real \<Rightarrow> error + real" where
  "mclc_ratio a b c alpha =
    (if c = 0 \<or> a ^ 2 = 0 then Inl ZeroDivisionError
     else Inr (b * cos (alpha * pi / 180) / c + b ^ 2 * sin alpha ^ 2 / a ^ 2))"

definition ratio_step ::
  "error + real \<Rightarrow> (real \<Rightarrow> bool) \<Rightarrow> (hsk \<Rightarrow> error + hsk) \<Rightarrow> hsk \<Rightarrow> error + hsk" where
  "ratio_step r cond m self =
    (case r of Inl e \<Rightarrow> Inl e | Inr x \<Rightarrow> if cond x then m self else Inr self)"

definition init :: "finder \<Rightarrow> error + hsk" where
  "init f =
    (let self = \<lparr>name_attr = None, kpath_attr = None\<rparr>;
         sym = spacegroup_symbol f
     in
     if lattice_type f = ''cubic'' then
       run [guarded (CHR ''P'' \<in> set sym) (assign cubic),
            guarded (CHR ''F'' \<in> set sym) (assign fcc),
            guarded (CHR ''I'' \<in> set sym) (assign bcc)] self
     else if lattice_type f = ''tetragonal'' then
       run [guarded (CHR ''P'' \<in> set sym) (assign tet),
            guarded (CHR ''I'' \<in> set sym)
              (let a = conv_a f; c = conv_c f in
               if c < a then assign (bctet1 c a) else assign (bctet2 c a))] self
     else if lattice_type f = ''orthorhombic'' then
       (let a = conv_a f; b = conv_b f; c = conv_c f in
        run [guarded (CHR ''P'' \<in> set sym) (assign orc),
             guarded (CHR ''F'' \<in> set sym)
               (if a ^ 2 = 0 \<or> b ^ 2 = 0 \<or> c ^ 2 = 0 then (\<lambda>_. Inl ZeroDivisionError)
                else if 1 / a ^ 2 > 1 / b ^ 2 + 1 / c ^ 2 then assign (orcf1 a b c)
                else if 1 / a ^ 2 < 1 / b ^ 2 + 1 / c ^ 2 then assign (orcf2 a b c)
                else assign (orcf3 a b c)),
             guarded (CHR ''I'' \<in> set sym) (assign (orci a b c)),
             guarded (CHR ''C'' \<in> set sym) (assign (orcc a b c))] self)
     else if lattice_type f = ''hexagonal'' then
       assign hex self
     else if lattice_type f = ''rhombohedral'' then
       (let alpha = prim_alpha f in
        if alpha < 90 then assign (rhl1 (alpha * pi / 180)) self
        else assign (rhl2 (alpha * pi / 180)) self)
     else if lattice_type f = ''monoclinic'' then
       (let a = conv_a f; b = conv_b f; c = conv_c f; alpha = conv_alpha f in
        run [guarded (CHR ''P'' \<in> set sym) (assign (mcl b c (alpha * pi / 180))),
             guarded (CHR ''C'' \<in> set sym)
               (run [guarded (kgamma f > 90) (assign (mclc1 a b c (alpha * pi / 180))),
                     guarded (kgamma f = 90) (assign (mclc2 a b c (alpha * pi / 180))),
                     guarded (kgamma f < 90)
                       (run [ratio_step (mclc_ratio a b c alpha) (\<lambda>r. r < 1)
                               (assign (mclc3 a b c (alpha * pi / 180))),
                             ratio_step (mclc_ratio a b c alpha) (\<lambda>r. r = 1)
                               (assign (mclc4 a b c (alpha * pi / 180))),
                             ratio_step (mclc_ratio a b c alpha) (\<lambda>r. r > 1)
                               (assign (mclc5 a b c (alpha * pi / 180)))])])] self)
     else if lattice_type f = ''triclinic'' then
       run [guarded (kalpha f > 90 \<and> kbeta f > 90 \<and> kgamma f > 90) (assign tria),
            guarded (kalpha f < 90 \<and> kbeta f < 90 \<and> kgamma f < 90) (assign trib),
            guarded (kalpha f > 90 \<and> kbeta f > 90 \<and> kgamma f = 90) (assign tria),
            guarded (kalpha f < 90 \<and> kbeta f < 90 \<and> kgamma f = 90) (assign trib)] self
     else Inr self)"

text \<open>
  The properties \<^verbatim>\<open>kpath\<close> and \<^verbatim>\<open>name\<close>. The first returns the attribute, which may
  be \<^verbatim>\<open>None\<close>; the second reads an attribute that may not exist.
\<close>

definition kpath_property :: "hsk \<Rightarrow> kpath option" where
  "kpath_property self = kpath_attr self"

definition name_property :: "hsk \<Rightarrow> error + string" where
  "name_property self =
    (case name_attr self of None \<Rightarrow> Inl AttributeError | Some n \<Rightarrow> Inr n)"

section \<open>The sampler: \<^verbatim>\<open>get_kpoints\<close>\<close>

definition vadd :: "vec \<Rightarrow> vec \<Rightarrow> vec" where
  "vadd u v = (case u of (x, y, z) \<Rightarrow> case v of (x', y', z') \<Rightarrow> (x + x', y + y', z + z'))"

definition vsub :: "vec \<Rightarrow> vec \<Rightarrow> vec" where
  "vsub u v = (case u of (x, y, z) \<Rightarrow> case v of (x', y', z') \<Rightarrow> (x - x', y - y', z - z'))"

definition smul :: "real \<Rightarrow> vec \<Rightarrow> vec" where
  "smul t v = (case v of (x, y, z) \<Rightarrow> (t * x, t * y, t * z))"

definition linalg_norm :: "vec \<Rightarrow> real" where
  "linalg_norm v = (case v of (x, y, z) \<Rightarrow> sqrt (x ^ 2 + y ^ 2 + z ^ 2))"

text \<open>
  One leg, from \<open>start\<close> to \<open>endp\<close> (fractional coordinates); \<open>cart\<close> is
  \<^verbatim>\<open>self._prim_rec.get_cartesian_coords\<close>. \<^verbatim>\<open>range(0, nb + 1)\<close> is empty for a
  negative \<open>nb\<close>; for \<open>nb = 0\<close> it holds \<open>i = 0\<close>, and
  \<^verbatim>\<open>float(i) / float(nb)\<close> divides by zero.
\<close>

definition leg_distance :: "(vec \<Rightarrow> vec) \<Rightarrow> vec \<Rightarrow> vec \<Rightarrow> real" where
  "leg_distance cart start endp = linalg_norm (vsub (cart start) (cart endp))"

definition leg_samples :: "(vec \<Rightarrow> vec) \<Rightarrow> vec \<Rightarrow> vec \<Rightarrow> int \<Rightarrow> vec list" where
  "leg_samples cart start endp nb =
    map (\<lambda>i. vadd (cart start)
               (smul (real_of_int i / real_of_int nb) (vsub (cart endp) (cart start))))
      [0..nb]"

definition leg_points :: "(vec \<Rightarrow> vec) \<Rightarrow> real \<Rightarrow> vec \<Rightarrow> vec \<Rightarrow> error + vec list" where
  "leg_points cart line_density start endp =
    (let distance = leg_distance cart start endp;
         nb = \<lceil>distance * line_density\<rceil>
     in if nb = 0 then Inl ZeroDivisionError
        else Inr (leg_samples cart start endp nb))"

text \<open>
  The inner loop over \<^verbatim>\<open>range(1, len(b))\<close> and the outer loop over the segments; the
  last argument is \<^verbatim>\<open>list_k_points\<close>, extended leg by leg.
\<close>

fun segment_points ::
  "(vec \<Rightarrow> vec) \<Rightarrow> (string \<rightharpoonup> vec) \<Rightarrow> real \<Rightarrow> string list \<Rightarrow> vec list \<Rightarrow> error + vec list" where
  "segment_points cart kps line_density (l # l' # ls) acc =
    (case kps l of
       None \<Rightarrow> Inl KeyError
     | Some start \<Rightarrow>
        (case kps l' of
           None \<Rightarrow> Inl KeyError
         | Some endp \<Rightarrow>
            (case leg_points cart line_density start endp of
               Inl e \<Rightarrow> Inl e
             | Inr pts \<Rightarrow> segment_points cart kps line_density (l' # ls) (acc @ pts))))"
| "segment_points cart kps line_density ls acc = Inr acc"

fun path_points ::
  "(vec \<Rightarrow> vec) \<Rightarrow> (string \<rightharpoonup> vec) \<Rightarrow> real \<Rightarrow> string list list \<Rightarrow> vec list
    \<Rightarrow> error + vec list" where
  "path_points cart kps line_density [] acc = Inr acc"
| "path_points cart kps line_density (b # bs) acc =
    (case segment_points cart kps line_density b acc of
       Inl e \<Rightarrow> Inl e
     | Inr acc' \<Rightarrow> path_points cart kps line_density bs acc')"

definition get_kpoints :: "(vec \<Rightarrow> vec) \<Rightarrow> hsk \<Rightarrow> real \<Rightarrow> error + vec list" where
  "get_kpoints cart self line_density =
    (case kpath_property self of
       None \<Rightarrow> Inl TypeError
     | Some kp \<Rightarrow> path_points cart (kpoints kp) line_density (path kp) [])"

section \<open>Notions used to state the properties\<close>

text \<open>
  Referential integrity of a returned dictionary: every segment has at least two labels,
  and every label of a segment is a key of the point dictionary.
\<close>

definition path_ok :: "kpath \<Rightarrow> bool" where
  "path_ok kp =
    (\<forall>seg \<in> set (path kp). 2 \<le> length seg \<and> (\<forall>l \<in> set seg. l \<in> dom (kpoints kp)))"

text \<open>
  The legs of a segment are its pairs of consecutive labels; the legs of a path are those
  of its segments, segment after segment.
\<close>

fun legs :: "string list \<Rightarrow> (string \<times> string) list" where
  "legs (l # l' # ls) = (l, l') # legs (l' # ls)"
| "legs ls = []"

definition path_legs :: "string list list \<Rightarrow> (string \<times> string) list" where
  "path_legs p = concat (map legs p)"

text \<open>The points of one leg, given by its two labels.\<close>

definition leg_of ::
  "(vec \<Rightarrow> vec) \<Rightarrow> (string \<rightharpoonup> vec) \<Rightarrow> real \<Rightarrow> string \<times> string \<Rightarrow> vec list" where
  "leg_of cart kps line_density ll =
    (case kps (fst ll) of
       None \<Rightarrow> []
     | Some start \<Rightarrow>
        (case kps (snd ll) of
           None \<Rightarrow> []
         | Some endp \<Rightarrow>
             leg_samples cart start endp \<lceil>leg_distance cart start endp * line_density\<rceil>))"

text \<open>
  The ratio of the specification for the monoclinic C variants 3, 4 and 5, with the angle
  in radians in both trigonometric functions.
\<close>

definition spec_ratio :: "real \<Rightarrow> real \<Rightarrow> real \<Rightarrow> real \<Rightarrow> real" where
  "spec_ratio a b c alpha = b * cos alpha / c + b ^ 2 * sin alpha ^ 2 / a ^ 2"

text \<open>
  The classification table of the specification, row by row: the names of the rows whose
  lattice type, centering letter and extra condition hold. A triclinic row takes
  ``mixed with exactly one = 90'' to allow any of the three angles to be the one at 90.
\<close>

definition row :: "bool \<Rightarrow> string \<Rightarrow> string list" where
  "row cond nm = (if cond then [nm] else [])"

definition spec_table :: "finder \<Rightarrow> string list" where
  "spec_table f =
    (let t = lattice_type f;
         sym = spacegroup_symbol f;
         a = conv_a f; b = conv_b f; c = conv_c f;
         r = spec_ratio a b c (conv_alpha f * pi / 180);
         ka = kalpha f; kb = kbeta f; kg = kgamma f
     in concat
       [row (t = ''cubic'' \<and> CHR ''P'' \<in> set sym) ''CUB'',
        row (t = ''cubic'' \<and> CHR ''F'' \<in> set sym) ''FCC'',
        row (t = ''cubic'' \<and> CHR ''I'' \<in> set sym) ''BCC'',
        row (t = ''tetragonal'' \<and> CHR ''P'' \<in> set sym) ''TET'',
        row (t = ''tetragonal'' \<and> CHR ''I'' \<in> set sym \<and> c < a) ''BCT1'',
        row (t = ''tetragonal'' \<and> CHR ''I'' \<in> set sym \<and> c \<ge> a) ''BCT2'',
        row (t = ''orthorhombic'' \<and> CHR ''P'' \<in> set sym) ''ORC'',
        row (t = ''orthorhombic'' \<and> CHR ''F'' \<in> set sym
              \<and> 1 / a ^ 2 > 1 / b ^ 2 + 1 / c ^ 2) ''ORCF1'',
        row (t = ''orthorhombic'' \<and> CHR ''F'' \<in> set sym
              \<and> 1 / a ^ 2 < 1 / b ^ 2 + 1 / c ^ 2) ''ORCF2'',
        row (t = ''orthorhombic'' \<and> CHR ''F'' \<in> set sym
              \<and> 1 / a ^ 2 = 1 / b ^ 2 + 1 / c ^ 2) ''ORCF3'',
        row (t = ''orthorhombic'' \<and> CHR ''I'' \<in> set sym) ''ORCI'',
        row (t = ''orthorhombic'' \<and> CHR ''C'' \<in> set sym) ''ORCC'',
        row (t = ''hexagonal'') ''HEX'',
        row (t = ''rhombohedral'' \<and> prim_alpha f < 90) ''RHL1'',
        row (t = ''rhombohedral'' \<and> prim_alpha f \<ge> 90) ''RHL2'',
        row (t = ''monoclinic'' \<and> CHR ''P'' \<in> set sym) ''MCL'',
        row (t = ''monoclinic'' \<and> CHR ''C'' \<in> set sym \<and> kg > 90) ''MCLC1'',
        row (t = ''monoclinic'' \<and> CHR ''C'' \<in> set sym \<and> kg = 90) ''MCLC2'',
        row (t = ''monoclinic'' \<and> CHR ''C'' \<in> set sym \<and> kg < 90 \<and> r < 1) ''MCLC3'',
        row (t = ''monoclinic'' \<and> CHR ''C'' \<in> set sym \<and> kg < 90 \<and> r = 1) ''MCLC4'',
        row (t = ''monoclinic'' \<and> CHR ''C'' \<in> set sym \<and> kg < 90 \<and> r > 1) ''MCLC5'',
        row (t = ''triclinic''
              \<and> (ka > 90 \<and> kb > 90 \<and> kg > 90
                 \<or> ka = 90 \<and> kb > 90 \<and> kg > 90
                 \<or> ka > 90 \<and> kb = 90 \<and> kg > 90
                 \<or> ka > 90 \<and> kb > 90 \<and> kg = 90)) ''TRI1a'',
        row (t = ''triclinic''
              \<and> (ka < 90 \<and> kb < 90 \<and> kg < 90
                 \<or> ka = 90 \<and> kb < 90 \<and> kg < 90
                 \<or> ka < 90 \<and> kb = 90 \<and> kg < 90
                 \<or> ka < 90 \<and> kb < 90 \<and> kg = 90)) ''TRI1b''])"

text \<open>A structure as the symmetry finder reports it, used for concrete inputs.\<close>

definition finder_of ::
  "string \<Rightarrow> string \<Rightarrow> real \<times> real \<times> real \<Rightarrow> real \<Rightarrow> real \<Rightarrow> real \<times> real \<times> real \<Rightarrow> finder" where
  "finder_of t symbol abc alpha alpha_prim kangles =
    \<lparr>lattice_type = t, spacegroup_symbol = symbol,
     conv_a = fst abc, conv_b = fst (snd abc), conv_c = snd (snd abc),
     conv_alpha = alpha, prim_alpha = alpha_prim,
     kalpha = fst kangles, kbeta = fst (snd kangles), kgamma = snd (snd kangles)\<rparr>"

section \<open>Evaluating the constructor\<close>

lemma assign_Inr:
  "assign (Inr (n, kp)) self = Inr (self\<lparr>name_attr := Some n, kpath_attr := Some kp\<rparr>)"
  by (simp add: assign_def)

lemma guarded_True: "guarded True m self = m self"
  by (simp add: guarded_def)

lemma guarded_False: "guarded False m self = Inr self"
  by (simp add: guarded_def)

lemma finder_of_simps:
  "lattice_type (finder_of t symbol abc alpha alpha_prim kangles) = t"
  "spacegroup_symbol (finder_of t symbol abc alpha alpha_prim kangles) = symbol"
  "conv_a (finder_of t symbol (a, b, c) alpha alpha_prim kangles) = a"
  "conv_b (finder_of t symbol (a, b, c) alpha alpha_prim kangles) = b"
  "conv_c (finder_of t symbol (a, b, c) alpha alpha_prim kangles) = c"
  "conv_alpha (finder_of t symbol abc alpha alpha_prim kangles) = alpha"
  "prim_alpha (finder_of t symbol abc alpha alpha_prim kangles) = alpha_prim"
  "kalpha (finder_of t symbol abc alpha alpha_prim (ka, kb, kg)) = ka"
  "kbeta (finder_of t symbol abc alpha alpha_prim (ka, kb, kg)) = kb"
  "kgamma (finder_of t symbol abc alpha alpha_prim (ka, kb, kg)) = kg"
  by (simp_all add: finder_of_def)

section \<open>The primitive cubic path\<close>

text \<open>
  C8. A cubic structure whose symbol holds the letter P and neither F nor I is classified
  as CUB: the point dictionary has exactly the four points Gamma, X, M and R at the
  coordinates below, and the path has the two segments Gamma-X-M-Gamma-R-X and M-R.
\<close>

theorem cubic_primitive:
  assumes "lattice_type f = ''cubic''"
    and "CHR ''P'' \<in> set (spacegroup_symbol f)"
    and "CHR ''F'' \<notin> set (spacegroup_symbol f)"
    and "CHR ''I'' \<notin> set (spacegroup_symbol f)"
  shows "\<exists>self kp. init f = Inr self \<and> name_property self = Inr ''CUB''
           \<and> kpath_property self = Some kp
           \<and> kpoints kp = [lbl_Gamma \<mapsto> (0, 0, 0), ''X'' \<mapsto> (0, 0.5, 0),
                            ''M'' \<mapsto> (0.5, 0.5, 0), ''R'' \<mapsto> (0.5, 0.5, 0.5)]
           \<and> path kp = [[lbl_Gamma, ''X'', ''M'', lbl_Gamma, ''R'', ''X''], [''M'', ''R'']]"
  using assms
  by (simp add: init_def cubic_def assign_Inr guarded_True guarded_False name_property_def
      kpath_property_def lbl_Gamma_def fun_upd_twist)

theorem cubic_primitive_witness:
  "\<exists>self kp. init (finder_of ''cubic'' ''Pm-3m'' (1, 1, 1) 90 90 (90, 90, 90)) = Inr self
     \<and> name_property self = Inr ''CUB'' \<and> kpath_property self = Some kp
     \<and> kpoints kp ''M'' = Some (0.5, 0.5, 0)
     \<and> dom (kpoints kp) = {lbl_Gamma, ''X'', ''M'', ''R''}
     \<and> path kp = [[lbl_Gamma, ''X'', ''M'', lbl_Gamma, ''R'', ''X''], [''M'', ''R'']]"
  using cubic_primitive [of "finder_of ''cubic'' ''Pm-3m'' (1, 1, 1) 90 90 (90, 90, 90)"]
  by (auto simp add: finder_of_simps)

section \<open>Body-centred tetragonal structures\<close>

text \<open>
  C7. A tetragonal structure whose symbol holds the letter I, with positive conventional
  lengths a and c, is classified as BCT1 when \<open>c < a\<close> and as BCT2 when \<open>c \<ge> a\<close>, the tie
  \<open>c = a\<close> included; the path is the one \<^verbatim>\<open>bctet1(c, a)\<close>, respectively
  \<^verbatim>\<open>bctet2(c, a)\<close>, returns.
\<close>

theorem bct_split:
  assumes "lattice_type f = ''tetragonal''"
    and "CHR ''I'' \<in> set (spacegroup_symbol f)"
    and "0 < conv_a f" and "0 < conv_c f"
  shows "\<exists>self kp. init f = Inr self \<and> kpath_property self = Some kp
           \<and> (if conv_c f < conv_a f
               then name_property self = Inr ''BCT1''
                  \<and> bctet1 (conv_c f) (conv_a f) = Inr (''BCT1'', kp)
               else name_property self = Inr ''BCT2''
                  \<and> bctet2 (conv_c f) (conv_a f) = Inr (''BCT2'', kp))"
proof -
  obtain k1 where k1: "bctet1 (conv_c f) (conv_a f) = Inr (''BCT1'', k1)"
    using assms(3) by (simp add: bctet1_def Let_def)
  obtain k2 where k2: "bctet2 (conv_c f) (conv_a f) = Inr (''BCT2'', k2)"
    using assms(4) by (simp add: bctet2_def Let_def)
  show ?thesis
    using assms(1,2)
    by (simp add: init_def Let_def guarded_def assign_def tet_def k1 k2 name_property_def
        kpath_property_def)
qed

theorem bct_split_witness:
  "(\<exists>self. init (finder_of ''tetragonal'' ''I4/mmm'' (3, 3, 2) 90 90 (90, 90, 90)) = Inr self
      \<and> name_property self = Inr ''BCT1'')
   \<and> (\<exists>self. init (finder_of ''tetragonal'' ''I4/mmm'' (2, 2, 3) 90 90 (90, 90, 90)) = Inr self
      \<and> name_property self = Inr ''BCT2'')
   \<and> (\<exists>self. init (finder_of ''tetragonal'' ''I4/mmm'' (2, 2, 2) 90 90 (90, 90, 90)) = Inr self
      \<and> name_property self = Inr ''BCT2'')"
  using bct_split [of "finder_of ''tetragonal'' ''I4/mmm'' (3, 3, 2) 90 90 (90, 90, 90)"]
    bct_split [of "finder_of ''tetragonal'' ''I4/mmm'' (2, 2, 3) 90 90 (90, 90, 90)"]
    bct_split [of "finder_of ''tetragonal'' ''I4/mmm'' (2, 2, 2) 90 90 (90, 90, 90)"]
  by (auto simp add: finder_of_simps)

section \<open>Face-centred orthorhombic structures\<close>



end
